theory Spec2Isabelle
  imports Complex_Main
begin

section \<open>Appointment scheduler: normalization and guardrails\<close>

text \<open>
  A shallow embedding of \<^verbatim>\<open>app/normalize_module.py\<close> and \<^verbatim>\<open>app/utils.py\<close>.

  Conventions of the model.
  \<^item> A Python \<^verbatim>\<open>str\<close> is a \<open>string\<close>; a character is read as the code point of the
    same number (U+0000 to U+00FF). Code points above U+00FF are outside the model.
  \<^item> A \<^verbatim>\<open>datetime\<close> is its proleptic Gregorian day ordinal (\<^verbatim>\<open>toordinal()\<close>) together
    with its wall-clock fields. Day arithmetic is arithmetic on the ordinal; the bound of
    Python's \<^verbatim>\<open>datetime\<close> type at the years 1 and 9999 is not modelled: the
    \<^verbatim>\<open>OverflowError\<close> of a sum of days or of a localization that leaves this range,
    which needs a clock reading or a date in the first or last days of the range, has no
    branch here.
  \<^item> The zone \<^verbatim>\<open>Asia/Kolkata\<close> is read as the fixed offset UTC+05:30, so two localized
    instants compare as their wall-clock readings do.
  \<^item> \<^verbatim>\<open>calendar.day_name\<close> and the am/pm markers of \<^verbatim>\<open>strptime\<close> are the English ones.
  \<^item> The package \<^verbatim>\<open>dateparser\<close> is not part of the repository: its function
    \<^verbatim>\<open>parse\<close> is a parameter \<open>dp\<close> of every definition that calls it. A call returns a
    \<^verbatim>\<open>datetime\<close>, returns \<^verbatim>\<open>None\<close>, or raises; no call of it stands in a
    \<^verbatim>\<open>try\<close>, so what it raises leaves the calling function.
\<close>

subsection \<open>Strings\<close>

definition is_space :: "char \<Rightarrow> bool" where
  \<comment> \<open>\<^verbatim>\<open>str.isspace\<close> on one character, also the class \<^verbatim>\<open>\s\<close> of \<^verbatim>\<open>re\<close>\<close>
  "is_space c = ((of_char c :: nat) \<in> {9, 10, 11, 12, 13, 28, 29, 30, 31, 32, 133, 160})"

definition is_digit :: "char \<Rightarrow> bool" where
  \<comment> \<open>the class \<^verbatim>\<open>\d\<close> of \<^verbatim>\<open>re\<close>\<close>
  "is_digit c = (48 \<le> (of_char c :: nat) \<and> (of_char c :: nat) \<le> 57)"

definition digit_val :: "char \<Rightarrow> nat" where
  "digit_val c = of_char c - 48"

definition lower_char :: "char \<Rightarrow> char" where
  "lower_char c =
     (let n = (of_char c :: nat)
      in if (65 \<le> n \<and> n \<le> 90) \<or> (192 \<le> n \<and> n \<le> 222 \<and> n \<noteq> 215)
         then char_of (n + 32) else c)"

definition py_lower :: "string \<Rightarrow> string" where
  \<comment> \<open>\<^verbatim>\<open>str.lower()\<close>\<close>
  "py_lower s = map lower_char s"

definition py_strip :: "string \<Rightarrow> string" where
  \<comment> \<open>\<^verbatim>\<open>str.strip()\<close>\<close>
  "py_strip s = rev (dropWhile is_space (rev (dropWhile is_space s)))"

fun split_acc :: "string \<Rightarrow> string \<Rightarrow> string list" where
  "split_acc cur [] = (if cur = [] then [] else [cur])"
| "split_acc cur (c # cs) =
     (if is_space c
      then (if cur = [] then split_acc [] cs else cur # split_acc [] cs)
      else split_acc (cur @ [c]) cs)"

definition py_split :: "string \<Rightarrow> string list" where
  \<comment> \<open>\<^verbatim>\<open>str.split()\<close> with no argument: the maximal runs of non-whitespace\<close>
  "py_split s = split_acc [] s"

fun starts_with :: "string \<Rightarrow> string \<Rightarrow> bool" where
  "starts_with s [] = True"
| "starts_with [] (p # ps) = False"
| "starts_with (c # cs) (p # ps) = (c = p \<and> starts_with cs ps)"

fun contains :: "string \<Rightarrow> string \<Rightarrow> bool" where
  \<comment> \<open>\<^verbatim>\<open>sub in s\<close>\<close>
  "contains [] sub = (sub = [])"
| "contains (c # cs) sub = (starts_with (c # cs) sub \<or> contains cs sub)"

definition replace_spaces :: "string \<Rightarrow> string" where
  \<comment> \<open>\<^verbatim>\<open>s.replace(' ', '')\<close>\<close>
  "replace_spaces s = filter (\<lambda>c. c \<noteq> CHR '' '') s"

definition digit_char :: "nat \<Rightarrow> char" where
  "digit_char d = char_of (48 + d mod 10)"

fun show_nat :: "nat \<Rightarrow> string" where
  "show_nat n = (if n < 10 then [digit_char n] else show_nat (n div 10) @ [digit_char (n mod 10)])"

declare show_nat.simps [simp del]

definition zero_pad :: "nat \<Rightarrow> nat \<Rightarrow> string" where
  \<comment> \<open>\<^verbatim>\<open>"%0kd" % n\<close> for a natural number\<close>
  "zero_pad k n = replicate (k - length (show_nat n)) (CHR ''0'') @ show_nat n"

subsection \<open>Dates and times\<close>

record time_of_day =
  hour :: nat
  minute :: nat
  second :: nat
  microsecond :: nat

record datetime = time_of_day +
  ordinal :: int

definition dt_time :: "datetime \<Rightarrow> time_of_day" where
  \<comment> \<open>\<^verbatim>\<open>dt.time()\<close>\<close>
  "dt_time d = \<lparr>hour = hour d, minute = minute d, second = second d, microsecond = microsecond d\<rparr>"

definition dt_date :: "datetime \<Rightarrow> int" where
  \<comment> \<open>\<^verbatim>\<open>dt.date()\<close>, as its ordinal\<close>
  "dt_date d = ordinal d"

definition combine :: "int \<Rightarrow> time_of_day \<Rightarrow> datetime" where
  \<comment> \<open>\<^verbatim>\<open>datetime.combine(date, time)\<close>\<close>
  "combine d t =
     \<lparr>hour = hour t, minute = minute t, second = second t, microsecond = microsecond t,
      ordinal = d\<rparr>"

definition add_days :: "datetime \<Rightarrow> int \<Rightarrow> datetime" where
  \<comment> \<open>\<^verbatim>\<open>dt + timedelta(days=n)\<close>: the wall-clock fields stay\<close>
  "add_days d n = d\<lparr>ordinal := ordinal d + n\<rparr>"

definition weekday :: "datetime \<Rightarrow> int" where
  \<comment> \<open>\<^verbatim>\<open>dt.weekday()\<close>: Monday is 0; ordinal 1 (0001-01-01) is a Monday\<close>
  "weekday d = (ordinal d + 6) mod 7"

definition dt_less :: "datetime \<Rightarrow> datetime \<Rightarrow> bool" where
  \<comment> \<open>\<^verbatim>\<open>a < b\<close> on two instants of the one zone\<close>
  "dt_less a b =
     (ordinal a < ordinal b \<or> ordinal a = ordinal b \<and>
       (hour a < hour b \<or> hour a = hour b \<and>
         (minute a < minute b \<or> minute a = minute b \<and>
           (second a < second b \<or> second a = second b \<and> microsecond a < microsecond b))))"

subsection \<open>Relative weekday phrases\<close>

definition get_next_weekday :: "datetime \<Rightarrow> int \<Rightarrow> datetime" where
  "get_next_weekday current_date wd =
     (let days_ahead = wd - weekday current_date;
          days_ahead = (if days_ahead \<le> 0 then days_ahead + 7 else days_ahead)
      in add_days current_date days_ahead)"

definition day_name :: "string list" where
  \<comment> \<open>\<^verbatim>\<open>calendar.day_name\<close>\<close>
  "day_name = [''Monday'', ''Tuesday'', ''Wednesday'', ''Thursday'', ''Friday'',
               ''Saturday'', ''Sunday'']"

definition weekdays :: "(string \<times> int) list" where
  \<comment> \<open>\<^verbatim>\<open>{day.lower(): i for i, day in enumerate(calendar.day_name)}\<close>\<close>
  "weekdays = zip (map py_lower day_name) (map int [0 ..< length day_name])"

definition parse_relative_day :: "string \<Rightarrow> datetime \<Rightarrow> datetime option" where
  "parse_relative_day phrase base_dt =
     (let phrase = py_lower phrase;
          ws = py_split phrase
      in if length ws = 2 \<and> ws ! 0 \<in> set [''next'', ''this''] \<and> map_of weekdays (ws ! 1) \<noteq> None
         then (let wd = the (map_of weekdays (ws ! 1));
                   dt = get_next_weekday base_dt wd;
                   dt = (if ws ! 0 = ''next''
                         then (if weekday base_dt = wd then add_days dt 7 else dt)
                         else dt)
               in Some dt)
         else None)"

subsection \<open>Regular expressions of the time formats\<close>

text \<open>
  A matcher takes the text that is left and returns the remainders of every way to match,
  in the order in which a backtracking engine tries them.
\<close>

definition rx_digit :: "string \<Rightarrow> string list" where
  \<comment> \<open>\<^verbatim>\<open>\d\<close>\<close>
  "rx_digit s = (case s of [] \<Rightarrow> [] | c # cs \<Rightarrow> if is_digit c then [cs] else [])"

definition rx_lit :: "string \<Rightarrow> string \<Rightarrow> string list" where
  \<comment> \<open>a literal\<close>
  "rx_lit p s = (if starts_with s p then [drop (length p) s] else [])"

definition rx_then :: "string list \<Rightarrow> (string \<Rightarrow> string list) \<Rightarrow> string list" where
  \<comment> \<open>sequencing\<close>
  "rx_then rs f = concat (map f rs)"

definition rx_digits_1_2 :: "string \<Rightarrow> string list" where
  \<comment> \<open>\<^verbatim>\<open>\d{1,2}\<close>, greedy: two digits are tried before one\<close>
  "rx_digits_1_2 s = rx_then (rx_digit s) (\<lambda>r. rx_digit r @ [r])"

definition rx_digits_2 :: "string \<Rightarrow> string list" where
  \<comment> \<open>\<^verbatim>\<open>\d{2}\<close>\<close>
  "rx_digits_2 s = rx_then (rx_digit s) rx_digit"

definition rx_ampm :: "string \<Rightarrow> string list" where
  \<comment> \<open>\<^verbatim>\<open>(?:am|pm)\<close>\<close>
  "rx_ampm s = rx_lit ''am'' s @ rx_lit ''pm'' s"

definition rx_end :: "string \<Rightarrow> bool" where
  \<comment> \<open>\<^verbatim>\<open>$\<close>: the end of the text, or just before a newline that ends it\<close>
  "rx_end r = (r = [] \<or> r = [CHR 0x0A])"

definition pat_I_p :: "string \<Rightarrow> bool" where
  \<comment> \<open>\<^verbatim>\<open>re.match(r'^\d{1,2}(?:am|pm)$', s)\<close>\<close>
  "pat_I_p s = list_ex rx_end (rx_then (rx_digits_1_2 s) rx_ampm)"

definition pat_I_M_p :: "string \<Rightarrow> bool" where
  \<comment> \<open>\<^verbatim>\<open>re.match(r'^\d{1,2}:\d{2}(?:am|pm)$', s)\<close>\<close>
  "pat_I_M_p s =
     list_ex rx_end
       (rx_then (rx_then (rx_then (rx_digits_1_2 s) (rx_lit '':'')) rx_digits_2) rx_ampm)"

definition pat_H_M :: "string \<Rightarrow> bool" where
  \<comment> \<open>\<^verbatim>\<open>re.match(r'^\d{2}:\d{2}$', s)\<close>\<close>
  "pat_H_M s = list_ex rx_end (rx_then (rx_then (rx_digits_2 s) (rx_lit '':'')) rx_digits_2)"

subsection \<open>\<^verbatim>\<open>datetime.strptime\<close> on the three formats\<close>

datatype py_error = ValueError | KeyError | TypeError | AttributeError | OverflowError

datatype time_format = Fmt_I_p | Fmt_I_M_p | Fmt_H_M
  \<comment> \<open>\<^verbatim>\<open>'%I%p'\<close>, \<^verbatim>\<open>'%I:%M%p'\<close>, \<^verbatim>\<open>'%H:%M'\<close>\<close>

definition in_range :: "char \<Rightarrow> char \<Rightarrow> char \<Rightarrow> bool" where
  \<comment> \<open>the class \<^verbatim>\<open>[a-b]\<close>\<close>
  "in_range a b c = ((of_char a :: nat) \<le> of_char c \<and> (of_char c :: nat) \<le> of_char b)"

definition rx_two :: "(char \<Rightarrow> bool) \<Rightarrow> (char \<Rightarrow> bool) \<Rightarrow> string \<Rightarrow> (nat \<times> string) list" where
  \<comment> \<open>two characters of the given classes, read as a decimal number\<close>
  "rx_two p1 p2 s =
     (case s of
        c1 # c2 # r \<Rightarrow> if p1 c1 \<and> p2 c2 then [(10 * digit_val c1 + digit_val c2, r)] else []
      | _ \<Rightarrow> [])"

definition rx_one :: "(char \<Rightarrow> bool) \<Rightarrow> string \<Rightarrow> (nat \<times> string) list" where
  "rx_one p s = (case s of [] \<Rightarrow> [] | c # r \<Rightarrow> if p c then [(digit_val c, r)] else [])"

definition rx_I :: "string \<Rightarrow> (nat \<times> string) list" where
  \<comment> \<open>\<^verbatim>\<open>%I\<close> is \<^verbatim>\<open>(?P<I>1[0-2]|0[1-9]|[1-9])\<close>\<close>
  "rx_I s =
     rx_two (\<lambda>c. c = CHR ''1'') (in_range (CHR ''0'') (CHR ''2'')) s @
     rx_two (\<lambda>c. c = CHR ''0'') (in_range (CHR ''1'') (CHR ''9'')) s @
     rx_one (in_range (CHR ''1'') (CHR ''9'')) s"

definition rx_H :: "string \<Rightarrow> (nat \<times> string) list" where
  \<comment> \<open>\<^verbatim>\<open>%H\<close> is \<^verbatim>\<open>(?P<H>2[0-3]|[0-1]\d|\d)\<close>\<close>
  "rx_H s =
     rx_two (\<lambda>c. c = CHR ''2'') (in_range (CHR ''0'') (CHR ''3'')) s @
     rx_two (in_range (CHR ''0'') (CHR ''1'')) is_digit s @
     rx_one is_digit s"

definition rx_M :: "string \<Rightarrow> (nat \<times> string) list" where
  \<comment> \<open>\<^verbatim>\<open>%M\<close> is \<^verbatim>\<open>(?P<M>[0-5]\d|\d)\<close>\<close>
  "rx_M s = rx_two (in_range (CHR ''0'') (CHR ''5'')) is_digit s @ rx_one is_digit s"

definition rx_p :: "string \<Rightarrow> (bool \<times> string) list" where
  \<comment> \<open>\<^verbatim>\<open>%p\<close> is \<^verbatim>\<open>(?P<p>am|pm)\<close>, matched ignoring case; \<open>True\<close> is pm\<close>
  "rx_p s =
     (if starts_with (py_lower s) ''am'' then [(False, drop 2 s)] else []) @
     (if starts_with (py_lower s) ''pm'' then [(True, drop 2 s)] else [])"

definition rx_colon :: "string \<Rightarrow> string list" where
  "rx_colon s = rx_lit '':'' s"

definition strptime_matches :: "time_format \<Rightarrow> string \<Rightarrow> (nat \<times> nat \<times> bool option \<times> string) list" where
  \<comment> \<open>the matches of the format's regular expression: hour field, minute, am/pm, remainder\<close>
  "strptime_matches fmt s =
     (case fmt of
        Fmt_I_p \<Rightarrow>
          concat (map (\<lambda>(h, r). map (\<lambda>(pm, r'). (h, 0, Some pm, r')) (rx_p r)) (rx_I s))
      | Fmt_I_M_p \<Rightarrow>
          concat (map (\<lambda>(h, r).
            concat (map (\<lambda>r1.
              concat (map (\<lambda>(m, r2). map (\<lambda>(pm, r3). (h, m, Some pm, r3)) (rx_p r2)) (rx_M r1)))
              (rx_colon r))) (rx_I s))
      | Fmt_H_M \<Rightarrow>
          concat (map (\<lambda>(h, r).
            concat (map (\<lambda>r1. map (\<lambda>(m, r2). (h, m, None, r2)) (rx_M r1)) (rx_colon r))) (rx_H s)))"

definition strptime :: "string \<Rightarrow> time_format \<Rightarrow> datetime option" where
  \<comment> \<open>\<open>None\<close> is the \<^verbatim>\<open>ValueError\<close> of a text that does not match the format, or matches
      only a proper prefix; the date defaults to 1900-01-01 (ordinal 693596)\<close>
  "strptime s fmt =
     (case strptime_matches fmt s of
        [] \<Rightarrow> None
      | (h, m, ap, rest) # _ \<Rightarrow>
          if rest \<noteq> [] then None
          else Some \<lparr>hour = (case ap of
                               None \<Rightarrow> h
                             | Some False \<Rightarrow> (if h = 12 then 0 else h)
                             | Some True \<Rightarrow> (if h \<noteq> 12 then h + 12 else h)),
                     minute = m, second = 0, microsecond = 0, ordinal = 693596\<rparr>)"

subsection \<open>Time phrases\<close>

definition re_sub_at :: "string \<Rightarrow> string" where
  \<comment> \<open>\<^verbatim>\<open>re.sub(r'^at\s+', '', s)\<close>\<close>
  "re_sub_at s =
     (case s of
        a # t # c # rest \<Rightarrow>
          if a = CHR ''a'' \<and> t = CHR ''t'' \<and> is_space c then dropWhile is_space rest else s
      | _ \<Rightarrow> s)"

definition time_formats :: "(time_format \<times> (string \<Rightarrow> bool)) list" where
  "time_formats = [(Fmt_I_p, pat_I_p), (Fmt_I_M_p, pat_I_M_p), (Fmt_H_M, pat_H_M)]"

fun try_formats :: "(time_format \<times> (string \<Rightarrow> bool)) list \<Rightarrow> string \<Rightarrow> datetime option" where
  "try_formats [] s = None"
| "try_formats ((fmt, pat) # rest) s =
     (if pat s
      then (case strptime s fmt of Some d \<Rightarrow> Some d | None \<Rightarrow> try_formats rest s)
      else try_formats rest s)"

definition parse_time :: "string \<Rightarrow> datetime option" where
  "parse_time time_str =
     (let time_str = py_strip (py_lower time_str);
          time_str = re_sub_at time_str;
          time_str = replace_spaces time_str
      in try_formats time_formats time_str)"

subsection \<open>The external date parser\<close>

record dp_settings =
  RELATIVE_BASE :: datetime
  PREFER_DATES_FROM :: string
  TIMEZONE :: string
  RETURN_AS_TIMEZONE_AWARE :: bool
  PREFER_DAY_OF_MONTH :: string
  DATE_ORDER :: "string option"

type_synonym dateparser = "dp_settings option \<Rightarrow> string \<Rightarrow> py_error + datetime option"
  \<comment> \<open>\<^verbatim>\<open>dateparser.parse(phrase, settings=...)\<close>; no settings is \<open>None\<close>; \<open>Inl\<close> is
      an exception raised by the call\<close>

definition truthy_str :: "string option \<Rightarrow> bool" where
  \<comment> \<open>the truth value of an \<^verbatim>\<open>Optional[str]\<close>\<close>
  "truthy_str x = (case x of None \<Rightarrow> False | Some s \<Rightarrow> s \<noteq> [])"

definition parse_with_base ::
  "dateparser \<Rightarrow> string option \<Rightarrow> datetime \<Rightarrow> py_error + datetime option" where
  \<comment> \<open>\<open>Inl\<close> is an exception of one of the two calls of the external parser\<close>
  "parse_with_base dp phrase base_dt =
     (case phrase of
        None \<Rightarrow> Inr None
      | Some p \<Rightarrow>
          if p = [] then Inr None
          else (case parse_relative_day p base_dt of
                  Some relative_dt \<Rightarrow> Inr (Some relative_dt)
                | None \<Rightarrow>
                    (let settings = \<lparr>RELATIVE_BASE = base_dt, PREFER_DATES_FROM = ''future'',
                                     TIMEZONE = ''Asia/Kolkata'', RETURN_AS_TIMEZONE_AWARE = True,
                                     PREFER_DAY_OF_MONTH = ''first'', DATE_ORDER = None\<rparr>
                     in case dp (Some settings) p of
                          Inl e \<Rightarrow> Inl e
                        | Inr (Some parsed) \<Rightarrow> Inr (Some parsed)
                        | Inr None \<Rightarrow> dp (Some (settings\<lparr>DATE_ORDER := Some ''DMY''\<rparr>)) p)))"

subsection \<open>Formatting\<close>

definition days_before_month :: "int list" where
  "days_before_month = [-1, 0, 31, 59, 90, 120, 151, 181, 212, 243, 273, 304, 334]"

definition days_in_month :: "int list" where
  "days_in_month = [-1, 31, 28, 31, 30, 31, 30, 31, 31, 30, 31, 30, 31]"

definition ord2ymd :: "int \<Rightarrow> int \<times> int \<times> int" where
  \<comment> \<open>the year, month and day of an ordinal, as \<^verbatim>\<open>datetime._ord2ymd\<close> computes them\<close>
  "ord2ymd n0 =
     (let n = n0 - 1;
          n400 = n div 146097; n = n mod 146097;
          year = n400 * 400 + 1;
          n100 = n div 36524; n = n mod 36524;
          n4 = n div 1461; n = n mod 1461;
          n1 = n div 365; n = n mod 365;
          year = year + n100 * 100 + n4 * 4 + n1
      in if n1 = 4 \<or> n100 = 4 then (year - 1, 12, 31)
         else (let leapyear = (n1 = 3 \<and> (n4 \<noteq> 24 \<or> n100 = 3));
                   month = (n + 50) div 32;
                   preceding = days_before_month ! nat month + (if month > 2 \<and> leapyear then 1 else 0)
               in if preceding > n
                  then (let month = month - 1;
                            preceding = preceding - (days_in_month ! nat month +
                                          (if month = 2 \<and> leapyear then 1 else 0))
                        in (year, month, n - preceding + 1))
                  else (year, month, n - preceding + 1)))"

definition isoformat :: "int \<Rightarrow> string" where
  \<comment> \<open>\<^verbatim>\<open>date.isoformat()\<close>, that is \<^verbatim>\<open>"%04d-%02d-%02d"\<close>, for the ordinals of the years 1 to 9999\<close>
  "isoformat d =
     (case ord2ymd d of
        (y, m, dd) \<Rightarrow> zero_pad 4 (nat y) @ ''-'' @ zero_pad 2 (nat m) @ ''-'' @ zero_pad 2 (nat dd))"

definition strftime_HM :: "time_of_day \<Rightarrow> string" where
  \<comment> \<open>\<^verbatim>\<open>t.strftime("%H:%M")\<close>\<close>
  "strftime_HM t = zero_pad 2 (hour t) @ '':'' @ zero_pad 2 (minute t)"

subsection \<open>Dictionaries\<close>

datatype pyval = PNone | PStr string | PFloat rat | PDict "(string \<times> pyval) list"

definition py_opt :: "string option \<Rightarrow> pyval" where
  "py_opt x = (case x of None \<Rightarrow> PNone | Some s \<Rightarrow> PStr s)"

fun truthy :: "pyval \<Rightarrow> bool" where
  "truthy PNone = False"
| "truthy (PStr s) = (s \<noteq> [])"
| "truthy (PFloat x) = (x \<noteq> 0)"
| "truthy (PDict kvs) = (kvs \<noteq> [])"

fun py_get :: "pyval \<Rightarrow> string \<Rightarrow> pyval \<Rightarrow> py_error + pyval" where
  \<comment> \<open>\<^verbatim>\<open>d.get(k, default)\<close>; only a dictionary has the method\<close>
  "py_get (PDict kvs) k dflt = Inr (case map_of kvs k of None \<Rightarrow> dflt | Some v \<Rightarrow> v)"
| "py_get _ k dflt = Inl AttributeError"

fun py_index :: "pyval \<Rightarrow> string \<Rightarrow> py_error + pyval" where
  \<comment> \<open>\<^verbatim>\<open>d[k]\<close> with a string key\<close>
  "py_index (PDict kvs) k = (case map_of kvs k of None \<Rightarrow> Inl KeyError | Some v \<Rightarrow> Inr v)"
| "py_index _ k = Inl TypeError"

fun is_dict :: "pyval \<Rightarrow> bool" where
  \<comment> \<open>\<^verbatim>\<open>isinstance(v, dict)\<close>\<close>
  "is_dict (PDict kvs) = True"
| "is_dict _ = False"

definition bind_err :: "py_error + 'a \<Rightarrow> ('a \<Rightarrow> py_error + 'b) \<Rightarrow> py_error + 'b" where
  \<comment> \<open>an exception of the first computation ends the whole\<close>
  "bind_err m f = (case m of Inl e \<Rightarrow> Inl e | Inr v \<Rightarrow> f v)"

subsection \<open>Normalization\<close>

record world =
  clock :: datetime
  \<comment> \<open>what \<^verbatim>\<open>datetime.now(KOLKATA)\<close> returns\<close>

definition DEFAULT_TIME :: string where
  "DEFAULT_TIME = ''09:00''"

definition localize :: "datetime \<Rightarrow> datetime" where
  \<comment> \<open>\<^verbatim>\<open>KOLKATA.localize(dt)\<close>: the wall-clock reading is kept\<close>
  "localize d = d"

definition clarification :: "string \<Rightarrow> pyval" where
  "clarification msg = PDict [(''status'', PStr ''needs_clarification''), (''message'', PStr msg)]"

definition normalize_py :: "dateparser \<Rightarrow> world \<Rightarrow> string option \<Rightarrow> string option \<Rightarrow> py_error + pyval" where
  \<comment> \<open>\<^verbatim>\<open>normalize(date_phrase, time_phrase)\<close>; \<open>Inl\<close> is an exception that leaves the function\<close>
  "normalize_py dp w date_phrase time_phrase =
     (let now = clock w
      in bind_err (parse_with_base dp date_phrase now) (\<lambda>parsed_date.
         bind_err
           (if truthy_str time_phrase
            then (case parse_time (the time_phrase) of
                    Some parsed_time \<Rightarrow> Inr (Some (dt_time parsed_time))
                  | None \<Rightarrow>
                      bind_err (dp None (the time_phrase)) (\<lambda>parsed_time.
                        case parsed_time of
                          Some parsed_time \<Rightarrow> Inr (Some (dt_time parsed_time))
                        | None \<Rightarrow> Inr None))
            else (case strptime DEFAULT_TIME Fmt_H_M of
                    None \<Rightarrow> Inl ValueError
                  | Some d \<Rightarrow> Inr (Some (dt_time d))))
           (\<lambda>time_part.
              case time_part of
                None \<Rightarrow> Inr (clarification ''Invalid time format'')
              | Some time_part \<Rightarrow>
                  (case parsed_date of
                     None \<Rightarrow> Inr (clarification ''Invalid or missing date'')
                   | Some parsed_date \<Rightarrow>
                       (let final_dt = localize (combine (dt_date parsed_date) time_part);
                            final_dt =
                              (if dt_less final_dt now
                               then (if truthy_str date_phrase \<and>
                                        \<not> contains (py_lower (the date_phrase)) ''next''
                                     then add_days final_dt 7 else final_dt)
                               else final_dt)
                        in Inr (PDict
                             [(''normalized'', PDict
                                [(''date'', PStr (isoformat (dt_date final_dt))),
                                 (''time'', PStr (strftime_HM (dt_time final_dt))),
                                 (''tz'', PStr ''Asia/Kolkata'')]),
                              (''normalization_confidence'', PFloat (9 / 10))]))))))"

subsection \<open>Guardrails\<close>

definition apply_guardrails_and_build :: "pyval \<Rightarrow> pyval \<Rightarrow> pyval \<Rightarrow> py_error + pyval" where
  "apply_guardrails_and_build ocr_result entities_result normalization_result =
     bind_err (py_get entities_result ''entities'' (PDict [])) (\<lambda>ents.
       if is_dict normalization_result \<and>
          py_get normalization_result ''status'' PNone = Inr (PStr ''needs_clarification'')
       then bind_err (py_get normalization_result ''message'' PNone) (\<lambda>msg.
              Inr (PDict [(''status'', PStr ''needs_clarification''), (''message'', msg)]))
       else
         bind_err (py_get ents ''department'' PNone) (\<lambda>dept.
           if \<not> truthy dept
           then Inr (PDict [(''status'', PStr ''needs_clarification''),
                            (''message'', PStr ''Ambiguous or missing department'')])
           else
             bind_err (py_get normalization_result ''normalized'' PNone) (\<lambda>nrm.
               if \<not> truthy nrm
               then Inr (PDict [(''status'', PStr ''needs_clarification''),
                                (''message'', PStr ''Ambiguous or missing date/time'')])
               else
                 bind_err (py_index ents ''department'') (\<lambda>department.
                 bind_err (bind_err (py_index normalization_result ''normalized'')
                             (\<lambda>n. py_index n ''date'')) (\<lambda>date.
                 bind_err (bind_err (py_index normalization_result ''normalized'')
                             (\<lambda>n. py_index n ''time'')) (\<lambda>time.
                 bind_err (bind_err (py_index normalization_result ''normalized'')
                             (\<lambda>n. py_index n ''tz'')) (\<lambda>tz.
                   Inr (PDict [(''appointment'', PDict
                                  [(''department'', department), (''date'', date),
                                   (''time'', time), (''tz'', tz)]),
                               (''status'', PStr ''ok'')]))))))))"

subsection \<open>The two stages together\<close>

definition entities_result :: "string option \<Rightarrow> string option \<Rightarrow> string option \<Rightarrow> rat \<Rightarrow> pyval" where
  \<comment> \<open>the shape \<^verbatim>\<open>extract_entities\<close> returns\<close>
  "entities_result date_phrase time_phrase department conf =
     PDict [(''entities'', PDict [(''date_phrase'', py_opt date_phrase),
                                  (''time_phrase'', py_opt time_phrase),
                                  (''department'', py_opt department)]),
            (''entities_confidence'', PFloat conf)]"


subsection \<open>Vocabulary of the specification\<close>

datatype outcome = Clarify string | Normalized string string string
  \<comment> \<open>the normalization outcome: a reason, or a date, a time and a timezone\<close>

definition normalized_dict :: "string \<Rightarrow> string \<Rightarrow> string \<Rightarrow> pyval" where
  \<comment> \<open>the dictionary \<open>normalize_py\<close> builds for a resolved date and time\<close>
  "normalized_dict d t z =
     PDict [(''normalized'', PDict [(''date'', PStr d), (''time'', PStr t), (''tz'', PStr z)]),
            (''normalization_confidence'', PFloat (9 / 10))]"

fun outcome_dict :: "outcome \<Rightarrow> pyval" where
  "outcome_dict (Clarify reason) = clarification reason"
| "outcome_dict (Normalized d t z) = normalized_dict d t z"

definition ok_appointment :: "string \<Rightarrow> string \<Rightarrow> string \<Rightarrow> string \<Rightarrow> pyval" where
  "ok_appointment dept d t z =
     PDict [(''appointment'', PDict [(''department'', PStr dept), (''date'', PStr d),
                                     (''time'', PStr t), (''tz'', PStr z)]),
            (''status'', PStr ''ok'')]"

definition emit :: "datetime \<Rightarrow> pyval" where
  \<comment> \<open>the normalized result for an instant of the operational zone\<close>
  "emit dt = normalized_dict (isoformat (dt_date dt)) (strftime_HM (dt_time dt)) ''Asia/Kolkata''"

definition resolved_time :: "dateparser \<Rightarrow> string option \<Rightarrow> py_error + time_of_day option" where
  \<comment> \<open>the resolved time of day: 09:00 for a missing phrase, else the primary parser's
      reading, else the fallback's; \<open>Inl\<close> is an exception of the fallback\<close>
  "resolved_time dp time_phrase =
     (case time_phrase of
        None \<Rightarrow> Inr (Some \<lparr>hour = 9, minute = 0, second = 0, microsecond = 0\<rparr>)
      | Some tp \<Rightarrow>
          if tp = [] then Inr (Some \<lparr>hour = 9, minute = 0, second = 0, microsecond = 0\<rparr>)
          else (case parse_time tp of
                  Some d \<Rightarrow> Inr (Some (dt_time d))
                | None \<Rightarrow>
                    (case dp None tp of
                       Inl e \<Rightarrow> Inl e
                     | Inr None \<Rightarrow> Inr None
                     | Inr (Some d) \<Rightarrow> Inr (Some (dt_time d)))))"

definition is_clarification :: "pyval \<Rightarrow> bool" where
  \<comment> \<open>status \<^verbatim>\<open>needs_clarification\<close>, a non-empty message, no payload\<close>
  "is_clarification r =
     (case r of
        PDict kvs \<Rightarrow>
          map_of kvs ''status'' = Some (PStr ''needs_clarification'') \<and>
          (case map_of kvs ''message'' of Some (PStr m) \<Rightarrow> m \<noteq> [] | _ \<Rightarrow> False) \<and>
          map_of kvs ''normalized'' = None
      | _ \<Rightarrow> False)"

definition is_str :: "pyval option \<Rightarrow> bool" where
  "is_str v = (case v of Some (PStr s) \<Rightarrow> True | _ \<Rightarrow> False)"

definition is_normalized :: "pyval \<Rightarrow> bool" where
  \<comment> \<open>a payload \<^verbatim>\<open>normalized\<close> holding a date, a time and a zone, and no status\<close>
  "is_normalized r =
     (case r of
        PDict kvs \<Rightarrow>
          map_of kvs ''status'' = None \<and>
          (case map_of kvs ''normalized'' of
             Some (PDict p) \<Rightarrow>
               is_str (map_of p ''date'') \<and> is_str (map_of p ''time'') \<and> is_str (map_of p ''tz'')
           | _ \<Rightarrow> False)
      | _ \<Rightarrow> False)"

definition normalized_field :: "pyval \<Rightarrow> string \<Rightarrow> pyval option" where
  \<comment> \<open>\<^verbatim>\<open>r['normalized'][k]\<close> where it exists\<close>
  "normalized_field r k =
     (case r of
        PDict kvs \<Rightarrow> (case map_of kvs ''normalized'' of Some (PDict p) \<Rightarrow> map_of p k | _ \<Rightarrow> None)
      | _ \<Rightarrow> None)"

definition hour12 :: "nat \<Rightarrow> nat" where
  "hour12 h = (if h mod 12 = 0 then 12 else h mod 12)"

definition am_pm :: "nat \<Rightarrow> string" where
  "am_pm h = (if h < 12 then ''am'' else ''pm'')"

definition fmt_hour_ampm :: "nat \<Rightarrow> string" where
  \<comment> \<open>the style of \<^verbatim>\<open>3pm\<close>, for a time on the hour\<close>
  "fmt_hour_ampm h = show_nat (hour12 h) @ am_pm h"

definition fmt_hour_minute_ampm :: "nat \<Rightarrow> nat \<Rightarrow> string" where
  \<comment> \<open>the style of \<^verbatim>\<open>3:30pm\<close>\<close>
  "fmt_hour_minute_ampm h m = show_nat (hour12 h) @ '':'' @ zero_pad 2 m @ am_pm h"

definition fmt_24h :: "nat \<Rightarrow> nat \<Rightarrow> string" where
  \<comment> \<open>the style of \<^verbatim>\<open>15:00\<close>\<close>
  "fmt_24h h m = zero_pad 2 h @ '':'' @ zero_pad 2 m"

subsection \<open>Stand-ins for the external parser in the evaluated examples\<close>

definition dp_none :: dateparser where
  \<comment> \<open>a parser that understands nothing\<close>
  "dp_none st p = Inr None"

definition dp_yesterday :: dateparser where
  \<comment> \<open>a parser that understands the one phrase \<^verbatim>\<open>yesterday\<close>, relative to its base\<close>
  "dp_yesterday st p =
     (case st of
        None \<Rightarrow> Inr None
      | Some s \<Rightarrow>
          if p = ''yesterday'' then Inr (Some (add_days (RELATIVE_BASE s) (- 1))) else Inr None)"


section \<open>Properties\<close>

subsection \<open>Evaluated tables\<close>

lemma weekdays_eval:
  "weekdays = [(''monday'', 0), (''tuesday'', 1), (''wednesday'', 2), (''thursday'', 3),
               (''friday'', 4), (''saturday'', 5), (''sunday'', 6)]"
  by code_simp

lemma lowered_day_name:
  "map py_lower day_name =
     [''monday'', ''tuesday'', ''wednesday'', ''thursday'', ''friday'', ''saturday'', ''sunday'']"
  by code_simp

lemma length_day_name: "length day_name = 7"
  by (simp add: day_name_def)

lemma nat_less_7_cases:
  "k < 7 \<Longrightarrow> k = 0 \<or> k = 1 \<or> k = 2 \<or> k = 3 \<or> k = 4 \<or> k = 5 \<or> k = (6::nat)"
  by arith

subsection \<open>Splitting a phrase of two words\<close>

lemma split_acc_word:
  "\<forall>c \<in> set w. \<not> is_space c \<Longrightarrow> split_acc cur (w @ rest) = split_acc (cur @ w) rest"
  by (induction w arbitrary: cur) auto

lemma py_split_two:
  assumes "a \<noteq> []" "b \<noteq> []" "\<forall>c \<in> set a. \<not> is_space c" "\<forall>c \<in> set b. \<not> is_space c"
  shows "py_split (a @ '' '' @ b) = [a, b]"
proof -
  have sp: "is_space (CHR '' '')" by (simp add: is_space_def)
  have "split_acc [] (a @ ('' '' @ b)) = split_acc a ('' '' @ b)"
    using split_acc_word [OF assms(3), of "[]"] by simp
  also have "\<dots> = a # split_acc [] (b @ [])"
    using assms(1) sp by simp
  also have "split_acc [] (b @ []) = [b]"
    using split_acc_word [OF assms(4), of "[]" "[]"] assms(2) by simp
  finally show ?thesis by (simp add: py_split_def)
qed

lemma day_names_no_space:
  "k < 7 \<Longrightarrow>
   map py_lower day_name ! k \<noteq> [] \<and> (\<forall>c \<in> set (map py_lower day_name ! k). \<not> is_space c)"
  by (drule nat_less_7_cases) (auto simp: lowered_day_name is_space_def)

lemma map_of_weekdays:
  "k < 7 \<Longrightarrow> map_of weekdays (map py_lower day_name ! k) = Some (int k)"
  by (drule nat_less_7_cases) (auto simp: lowered_day_name weekdays_eval)

lemma qualifier_no_space:
  "ql = ''next'' \<or> ql = ''this'' \<Longrightarrow> ql \<noteq> [] \<and> (\<forall>c \<in> set ql. \<not> is_space c)"
  by (auto simp: is_space_def)

lemma two_token_lowered:
  assumes "k < 7" "py_lower d = py_lower (day_name ! k)"
  shows "py_lower (q @ '' '' @ d) = py_lower q @ '' '' @ (map py_lower day_name ! k)"
  using assms by (simp add: py_lower_def lower_char_def length_day_name)

lemma parse_relative_day_lowered:
  assumes q: "ql = ''next'' \<or> ql = ''this''" and k: "k < 7"
    and p: "py_lower phrase = ql @ '' '' @ (map py_lower day_name ! k)"
  shows "parse_relative_day phrase b =
     Some (if ql = ''next'' \<and> weekday b = int k
           then add_days (get_next_weekday b (int k)) 7 else get_next_weekday b (int k))"
proof -
  have ws: "py_split (py_lower phrase) = [ql, map py_lower day_name ! k]"
    unfolding p using py_split_two qualifier_no_space [OF q] day_names_no_space [OF k] by blast
  have m: "map_of weekdays (map py_lower day_name ! k) = Some (int k)"
    by (rule map_of_weekdays [OF k])
  show ?thesis
    using q by (auto simp: parse_relative_day_def ws m Let_def)
qed

subsection \<open>Weekday arithmetic\<close>

lemma weekday_range: "0 \<le> weekday b \<and> weekday b < 7"
  by (simp add: weekday_def)

lemma weekday_add_days: "weekday (add_days b n) = (weekday b + n) mod 7"
proof -
  have e: "ordinal b + n + 6 = (ordinal b + 6) + n" by simp
  have "(ordinal b + n + 6) mod 7 = ((ordinal b + 6) mod 7 + n) mod 7"
    unfolding e by (simp add: mod_add_left_eq)
  then show ?thesis
    by (simp add: weekday_def add_days_def)
qed

lemma weekday_add_days_7: "weekday (add_days b 7) = weekday b"
  using weekday_range [of b] by (simp add: weekday_add_days)

lemma add_days_add_days: "add_days (add_days b m) n = add_days b (m + n)"
  by (simp add: add_days_def)

lemma get_next_weekday_same: "weekday b = k \<Longrightarrow> get_next_weekday b k = add_days b 7"
  by (simp add: get_next_weekday_def)

lemma get_next_weekday_props:
  assumes "0 \<le> k" "k < 7"
  shows "weekday (get_next_weekday b k) = k \<and> ordinal b < ordinal (get_next_weekday b k) \<and>
         ordinal (get_next_weekday b k) \<le> ordinal b + 7"
proof (cases "k - weekday b \<le> 0")
  case True
  then have g: "get_next_weekday b k = add_days b (k - weekday b + 7)"
    by (simp add: get_next_weekday_def)
  have "(weekday b + (k - weekday b + 7)) mod 7 = (k + 7) mod 7" by simp
  also have "\<dots> = k" using assms by simp
  finally have "weekday (get_next_weekday b k) = k"
    by (simp only: g weekday_add_days)
  moreover have "ordinal b < ordinal (get_next_weekday b k) \<and>
      ordinal (get_next_weekday b k) \<le> ordinal b + 7"
    using True assms weekday_range [of b] by (simp add: g add_days_def)
  ultimately show ?thesis by simp
next
  case False
  then have g: "get_next_weekday b k = add_days b (k - weekday b)"
    by (simp add: get_next_weekday_def)
  have "(weekday b + (k - weekday b)) mod 7 = k mod 7" by simp
  also have "\<dots> = k" using assms by simp
  finally have "weekday (get_next_weekday b k) = k"
    by (simp only: g weekday_add_days)
  moreover have "ordinal b < ordinal (get_next_weekday b k) \<and>
      ordinal (get_next_weekday b k) \<le> ordinal b + 7"
    using False assms weekday_range [of b] by (simp add: g add_days_def)
  ultimately show ?thesis by simp
qed

subsection \<open>The relative weekday resolver\<close>

text \<open>
  Claim C2. Take a phrase made of the word \<open>next\<close> and a weekday name, in any mix of upper
  and lower case, and a reference instant that falls on that weekday. Then
  \<open>parse_relative_day\<close> returns the reference instant moved 14 days ahead, not 7.
\<close>

theorem next_same_weekday_fortnight:
  assumes "py_lower q = ''next''" and "k < 7" and "py_lower d = py_lower (day_name ! k)"
    and "weekday base_dt = int k"
  shows "parse_relative_day (q @ '' '' @ d) base_dt = Some (add_days base_dt 14)"
proof -
  have "py_lower (q @ '' '' @ d) = ''next'' @ '' '' @ (map py_lower day_name ! k)"
    using two_token_lowered [OF assms(2,3), of q] assms(1) by simp
  then have "parse_relative_day (q @ '' '' @ d) base_dt =
      Some (add_days (get_next_weekday base_dt (int k)) 7)"
    using parse_relative_day_lowered [of "''next''" k "q @ '' '' @ d" base_dt] assms(2,4) by simp
  then show ?thesis
    using get_next_weekday_same [OF assms(4)] by (simp add: add_days_add_days)
qed

theorem next_same_weekday_fortnight_witness:
  "parse_relative_day ''Next WEDNESDAY''
     \<lparr>hour = 10, minute = 30, second = 15, microsecond = 0, ordinal = 739924\<rparr>
   = Some \<lparr>hour = 10, minute = 30, second = 15, microsecond = 0, ordinal = 739938\<rparr>"
proof -
  have q: "py_lower ''Next'' = ''next''" by code_simp
  have d: "py_lower ''WEDNESDAY'' = py_lower (day_name ! 2)" by code_simp
  have w: "weekday \<lparr>hour = 10, minute = 30, second = 15, microsecond = 0, ordinal = 739924\<rparr> = int 2"
    by (simp add: weekday_def)
  show ?thesis
    using next_same_weekday_fortnight [OF q _ d w] by (simp add: add_days_def)
qed

text \<open>
  Claim C3. For a phrase made of \<open>next\<close> or \<open>this\<close> and a weekday name, in any mix of
  upper and lower case, and for every reference instant, \<open>parse_relative_day\<close> returns an
  instant that falls on the named weekday and whose date is strictly after the reference date,
  also when the reference day is the named weekday.
\<close>

theorem relative_weekday_strictly_future:
  assumes "py_lower q = ''next'' \<or> py_lower q = ''this''" and "k < 7"
    and "py_lower d = py_lower (day_name ! k)"
  shows "\<exists>dt. parse_relative_day (q @ '' '' @ d) base_dt = Some dt \<and>
              weekday dt = int k \<and> dt_date base_dt < dt_date dt"
proof -
  let ?n = "get_next_weekday base_dt (int k)"
  have p: "py_lower (q @ '' '' @ d) = py_lower q @ '' '' @ (map py_lower day_name ! k)"
    by (rule two_token_lowered [OF assms(2,3)])
  have r: "parse_relative_day (q @ '' '' @ d) base_dt =
      Some (if py_lower q = ''next'' \<and> weekday base_dt = int k then add_days ?n 7 else ?n)"
    by (rule parse_relative_day_lowered [OF assms(1,2) p])
  have g: "weekday ?n = int k \<and> ordinal base_dt < ordinal ?n"
    using get_next_weekday_props [of "int k" base_dt] assms(2) by simp
  show ?thesis
  proof (cases "py_lower q = ''next'' \<and> weekday base_dt = int k")
    case True
    then show ?thesis
      using r g by (simp add: weekday_add_days_7 dt_date_def) (simp add: add_days_def)
  next
    case False
    then show ?thesis using r g by (auto simp: dt_date_def)
  qed
qed

theorem relative_weekday_strictly_future_witness:
  "\<exists>dt. parse_relative_day ''THIS wednesday''
           \<lparr>hour = 10, minute = 30, second = 15, microsecond = 0, ordinal = 739924\<rparr> = Some dt \<and>
        weekday dt = 2 \<and> 739924 < dt_date dt"
proof -
  have q: "py_lower ''THIS'' = ''next'' \<or> py_lower ''THIS'' = ''this''" by code_simp
  have d: "py_lower ''wednesday'' = py_lower (day_name ! 2)" by code_simp
  show ?thesis
    using relative_weekday_strictly_future [OF q _ d,
      of "\<lparr>hour = 10, minute = 30, second = 15, microsecond = 0, ordinal = 739924\<rparr>"]
    by (simp add: dt_date_def)
qed

subsection \<open>Normalization, unfolded\<close>

lemma default_time:
  "strptime DEFAULT_TIME Fmt_H_M =
     Some \<lparr>hour = 9, minute = 0, second = 0, microsecond = 0, ordinal = 693596\<rparr>"
  by code_simp

lemma time_part_eq:
  "(if truthy_str time_phrase
    then (case parse_time (the time_phrase) of
            Some parsed_time \<Rightarrow> Inr (Some (dt_time parsed_time))
          | None \<Rightarrow>
              bind_err (dp None (the time_phrase)) (\<lambda>parsed_time.
                case parsed_time of
                  Some parsed_time \<Rightarrow> Inr (Some (dt_time parsed_time))
                | None \<Rightarrow> Inr None))
    else (case strptime DEFAULT_TIME Fmt_H_M of
            None \<Rightarrow> Inl ValueError
          | Some d \<Rightarrow> Inr (Some (dt_time d)))) = resolved_time dp time_phrase"
  by (cases time_phrase)
     (simp_all add: truthy_str_def resolved_time_def default_time dt_time_def bind_err_def
        split: option.splits sum.splits)

lemma normalize_py_unfold:
  "normalize_py dp w date_phrase time_phrase =
     (case parse_with_base dp date_phrase (clock w) of
        Inl e \<Rightarrow> Inl e
      | Inr parsed_date \<Rightarrow>
          (case resolved_time dp time_phrase of
             Inl e \<Rightarrow> Inl e
           | Inr None \<Rightarrow> Inr (clarification ''Invalid time format'')
           | Inr (Some t) \<Rightarrow>
               (case parsed_date of
                  None \<Rightarrow> Inr (clarification ''Invalid or missing date'')
                | Some pd \<Rightarrow>
                    Inr (emit (if dt_less (combine (dt_date pd) t) (clock w) \<and>
                                  truthy_str date_phrase \<and>
                                  \<not> contains (py_lower (the date_phrase)) ''next''
                               then add_days (combine (dt_date pd) t) 7
                               else combine (dt_date pd) t)))))"
proof (cases "parse_with_base dp date_phrase (clock w)")
  case (Inl e)
  then show ?thesis
    unfolding normalize_py_def Let_def time_part_eq by (simp add: bind_err_def)
next
  case pdo: (Inr pdo)
  show ?thesis
  proof (cases "resolved_time dp time_phrase")
    case (Inl e)
    then show ?thesis
      unfolding normalize_py_def Let_def time_part_eq by (simp add: bind_err_def pdo)
  next
    case rt: (Inr rt)
    show ?thesis
    proof (cases rt)
      case None
      then show ?thesis
        unfolding normalize_py_def Let_def time_part_eq by (simp add: bind_err_def pdo rt)
    next
      case t: (Some t)
      show ?thesis
      proof (cases pdo)
        case None
        then show ?thesis
          unfolding normalize_py_def Let_def time_part_eq by (simp add: bind_err_def pdo rt t)
      next
        case (Some pd)
        show ?thesis
          unfolding normalize_py_def Let_def time_part_eq
          by (simp only: bind_err_def pdo rt t Some sum.case option.case localize_def emit_def
                normalized_dict_def if_distrib [of dt_date] if_distrib [of dt_time])
             (simp)
      qed
    qed
  qed
qed

lemma normalize_py_raise_date:
  "parse_with_base dp date_phrase (clock w) = Inl e \<Longrightarrow>
   normalize_py dp w date_phrase time_phrase = Inl e"
  by (simp add: normalize_py_unfold)

lemma normalize_py_raise_time:
  "parse_with_base dp date_phrase (clock w) = Inr pdo \<Longrightarrow> resolved_time dp time_phrase = Inl e \<Longrightarrow>
   normalize_py dp w date_phrase time_phrase = Inl e"
  by (simp add: normalize_py_unfold)

lemma normalize_py_bad_time:
  "parse_with_base dp date_phrase (clock w) = Inr pdo \<Longrightarrow> resolved_time dp time_phrase = Inr None \<Longrightarrow>
   normalize_py dp w date_phrase time_phrase = Inr (clarification ''Invalid time format'')"
  by (simp add: normalize_py_unfold)

lemma normalize_py_bad_date:
  "parse_with_base dp date_phrase (clock w) = Inr None \<Longrightarrow>
   resolved_time dp time_phrase = Inr (Some t) \<Longrightarrow>
   normalize_py dp w date_phrase time_phrase = Inr (clarification ''Invalid or missing date'')"
  by (simp add: normalize_py_unfold)

lemma normalize_py_emit:
  "parse_with_base dp date_phrase (clock w) = Inr (Some pd) \<Longrightarrow>
   resolved_time dp time_phrase = Inr (Some t) \<Longrightarrow>
   normalize_py dp w date_phrase time_phrase =
     Inr (emit (if dt_less (combine (dt_date pd) t) (clock w) \<and> truthy_str date_phrase \<and>
                   \<not> contains (py_lower (the date_phrase)) ''next''
                then add_days (combine (dt_date pd) t) 7
                else combine (dt_date pd) t))"
  by (simp add: normalize_py_unfold)

lemma normalize_py_returned:
  assumes "normalize_py dp w date_phrase time_phrase = Inr r"
  shows "(\<exists>pdo. parse_with_base dp date_phrase (clock w) = Inr pdo \<and>
            resolved_time dp time_phrase = Inr None \<and>
            r = clarification ''Invalid time format'') \<or>
         (\<exists>t. parse_with_base dp date_phrase (clock w) = Inr None \<and>
            resolved_time dp time_phrase = Inr (Some t) \<and>
            r = clarification ''Invalid or missing date'') \<or>
         (\<exists>pd t. parse_with_base dp date_phrase (clock w) = Inr (Some pd) \<and>
            resolved_time dp time_phrase = Inr (Some t) \<and>
            r = emit (if dt_less (combine (dt_date pd) t) (clock w) \<and> truthy_str date_phrase \<and>
                         \<not> contains (py_lower (the date_phrase)) ''next''
                      then add_days (combine (dt_date pd) t) 7
                      else combine (dt_date pd) t))"
proof (cases "parse_with_base dp date_phrase (clock w)")
  case (Inl e)
  then show ?thesis
    using assms by (simp add: normalize_py_raise_date)
next
  case pdo: (Inr pdo)
  show ?thesis
  proof (cases "resolved_time dp time_phrase")
    case (Inl e)
    then show ?thesis
      using assms pdo by (simp add: normalize_py_raise_time)
  next
    case rt: (Inr rt)
    show ?thesis
    proof (cases rt)
      case None
      then have "r = clarification ''Invalid time format''"
        using assms normalize_py_bad_time [of dp date_phrase w pdo time_phrase] pdo rt by simp
      then show ?thesis using pdo rt None by simp
    next
      case t: (Some t)
      show ?thesis
      proof (cases pdo)
        case None
        then have "r = clarification ''Invalid or missing date''"
          using assms normalize_py_bad_date [of dp date_phrase w time_phrase t] pdo rt t by simp
        then show ?thesis using pdo rt t None by simp
      next
        case (Some pd)
        have "normalize_py dp w date_phrase time_phrase =
            Inr (emit (if dt_less (combine (dt_date pd) t) (clock w) \<and> truthy_str date_phrase \<and>
                          \<not> contains (py_lower (the date_phrase)) ''next''
                       then add_days (combine (dt_date pd) t) 7
                       else combine (dt_date pd) t))"
          using pdo rt t Some by (intro normalize_py_emit) simp_all
        then have "r = emit (if dt_less (combine (dt_date pd) t) (clock w) \<and> truthy_str date_phrase \<and>
                          \<not> contains (py_lower (the date_phrase)) ''next''
                       then add_days (combine (dt_date pd) t) 7
                       else combine (dt_date pd) t)"
          using assms by (simp only: sum.inject)
        then show ?thesis using pdo rt t Some by blast
      qed
    qed
  qed
qed

lemma parse_with_base_truthy:
  "parse_with_base dp date_phrase b = Inr (Some pd) \<Longrightarrow> truthy_str date_phrase"
  by (auto simp: parse_with_base_def truthy_str_def split: option.splits if_splits)






lemma guardrail_on_outcome:
  "apply_guardrails_and_build ocr_result (entities_result date_phrase time_phrase category conf)
     (outcome_dict out) =
   Inr (case out of
          Clarify reason \<Rightarrow> clarification reason
        | Normalized d t z \<Rightarrow>
            (case category of
               None \<Rightarrow> clarification ''Ambiguous or missing department''
             | Some c \<Rightarrow>
                 if c = [] then clarification ''Ambiguous or missing department''
                 else ok_appointment c d t z))"
  by (cases out; cases category)
     (simp_all add: apply_guardrails_and_build_def entities_result_def clarification_def
       normalized_dict_def ok_appointment_def bind_err_def py_opt_def)

lemma shapes_of_outcome:
  "reason \<noteq> [] \<Longrightarrow> is_clarification (outcome_dict (Clarify reason))"
  "\<not> is_normalized (outcome_dict (Clarify reason))"
  "is_normalized (outcome_dict (Normalized d t z))"
  "\<not> is_clarification (outcome_dict (Normalized d t z))"
  by (simp_all add: is_clarification_def is_normalized_def clarification_def normalized_dict_def
        is_str_def)

lemma guardrail_on_clarification:
  "apply_guardrails_and_build ocr ents (clarification reason) = Inr x \<Longrightarrow> x = clarification reason"
  by (cases ents)
     (auto simp: apply_guardrails_and_build_def clarification_def bind_err_def split: sum.splits)

lemma guardrail_on_normalized:
  "apply_guardrails_and_build ocr ents (normalized_dict d t z) \<noteq>
     Inr (clarification ''Ambiguous or missing date/time'')"
proof (cases "py_get ents ''entities'' (PDict [])")
  case (Inl e)
  then show ?thesis by (simp add: apply_guardrails_and_build_def bind_err_def)
next
  case (Inr es)
  show ?thesis
  proof (cases "py_get es ''department'' PNone")
    case (Inl e)
    then show ?thesis
      by (simp add: apply_guardrails_and_build_def bind_err_def Inr normalized_dict_def)
  next
    case dept: (Inr dept)
    show ?thesis
    proof (cases "py_index es ''department''")
      case (Inl e)
      then show ?thesis
        by (simp add: apply_guardrails_and_build_def bind_err_def Inr dept normalized_dict_def
              clarification_def)
    next
      case dep: (Inr dep)
      then show ?thesis
        by (simp add: apply_guardrails_and_build_def bind_err_def Inr dept normalized_dict_def
              clarification_def)
    qed
  qed
qed

subsection \<open>Guardrail decision\<close>

text \<open>
  Claim C6. For every category and every normalization outcome, \<open>apply_guardrails_and_build\<close>
  returns the outcome's clarification with its reason unchanged; for a normalized outcome and
  a missing category (\<open>None\<close>, or the empty string, which the code's truth test treats alike)
  the clarification \<open>Ambiguous or missing department\<close>; and otherwise the appointment made
  of the category and the payload's date, time and timezone. Nothing else is checked.
\<close>

theorem guardrail_decision:
  "apply_guardrails_and_build ocr_result (entities_result date_phrase time_phrase category conf)
     (outcome_dict out) =
   Inr (case out of
          Clarify reason \<Rightarrow> clarification reason
        | Normalized d t z \<Rightarrow>
            (case category of
               None \<Rightarrow> clarification ''Ambiguous or missing department''
             | Some c \<Rightarrow>
                 if c = [] then clarification ''Ambiguous or missing department''
                 else ok_appointment c d t z))"
  by (rule guardrail_on_outcome)

subsection \<open>Order of the two clarifications\<close>







subsection \<open>The rollover rule\<close>

text \<open>
  Claim C1. When the date phrase resolves to \<open>pd\<close> and the time resolves to \<open>t\<close>, the result
  of \<open>normalize_py\<close> is the normalized record of one instant: the combined, localized instant
  moved ahead by exactly 7 days if it is strictly earlier than the clock reading and the
  lower-cased date phrase does not contain \<open>next\<close>; the combined instant itself otherwise.
  The 7 days are added once, whether or not the moved instant is still in the past.
\<close>

theorem rollover_rule:
  assumes "parse_with_base dp (Some dph) (clock w) = Inr (Some pd)"
    and "resolved_time dp time_phrase = Inr (Some t)"
  shows "normalize_py dp w (Some dph) time_phrase =
     Inr (emit (if dt_less (localize (combine (dt_date pd) t)) (clock w) \<and>
                   \<not> contains (py_lower dph) ''next''
                then add_days (localize (combine (dt_date pd) t)) 7
                else localize (combine (dt_date pd) t)))"
  using assms parse_with_base_truthy [OF assms(1)]
  by (simp add: normalize_py_unfold localize_def)

theorem rollover_rule_witness:
  "normalize_py dp_yesterday
     \<lparr>clock = \<lparr>hour = 10, minute = 30, second = 15, microsecond = 0, ordinal = 739924\<rparr>\<rparr>
     (Some ''yesterday'') None =
   Inr (normalized_dict ''2026-11-10'' ''09:00'' ''Asia/Kolkata'')"
proof -
  let ?now = "\<lparr>hour = 10, minute = 30, second = 15, microsecond = 0, ordinal = 739924\<rparr>"
  have d: "parse_with_base dp_yesterday (Some ''yesterday'') (clock \<lparr>clock = ?now\<rparr>) =
      Inr (Some \<lparr>hour = 10, minute = 30, second = 15, microsecond = 0, ordinal = 739923\<rparr>)"
    by code_simp
  have t: "resolved_time dp_yesterday None =
      Inr (Some \<lparr>hour = 9, minute = 0, second = 0, microsecond = 0\<rparr>)"
    by (simp add: resolved_time_def)
  have n: "\<not> contains (py_lower ''yesterday'') ''next''" by code_simp
  have i: "isoformat 739930 = ''2026-11-10''" by code_simp
  have s: "strftime_HM \<lparr>hour = 9, minute = 0, second = 0, microsecond = 0\<rparr> = ''09:00''"
    by code_simp
  show ?thesis
    using rollover_rule [OF d t] n i s
    by (simp add: emit_def dt_less_def combine_def localize_def add_days_def dt_date_def
          dt_time_def)
qed

subsection \<open>Shapes of the normalization result\<close>

text \<open>
  Claim C10. Every value that \<open>normalize_py\<close> returns is a dictionary of exactly one of two
  shapes: a clarification (status \<^verbatim>\<open>needs_clarification\<close>, a non-empty message), or a record
  whose payload \<^verbatim>\<open>normalized\<close> holds a date, a time and a zone. So on a value returned by
  \<open>normalize_py\<close> the guardrail never answers \<open>Ambiguous or missing date/time\<close>, whatever
  the other two arguments are.
\<close>

theorem normalize_two_shapes:
  assumes "normalize_py dp w date_phrase time_phrase = Inr r"
  shows "(is_clarification r \<or> is_normalized r) \<and> \<not> (is_clarification r \<and> is_normalized r) \<and>
       (\<forall>ocr ents. apply_guardrails_and_build ocr ents r \<noteq>
                     Inr (clarification ''Ambiguous or missing date/time''))"
proof -
  consider "r = clarification ''Invalid time format''"
    | "r = clarification ''Invalid or missing date''"
    | x where "r = emit x"
    using normalize_py_returned [OF assms] by auto
  then show ?thesis
  proof cases
    case 1
    have "\<forall>ocr ents. apply_guardrails_and_build ocr ents (clarification ''Invalid time format'') \<noteq>
        Inr (clarification ''Ambiguous or missing date/time'')"
      using guardrail_on_clarification [of _ _ "''Invalid time format''"]
      by (auto simp: clarification_def)
    then show ?thesis
      using shapes_of_outcome(1,2) [of "''Invalid time format''"] by (simp add: 1)
  next
    case 2
    have "\<forall>ocr ents. apply_guardrails_and_build ocr ents (clarification ''Invalid or missing date'') \<noteq>
        Inr (clarification ''Ambiguous or missing date/time'')"
      using guardrail_on_clarification [of _ _ "''Invalid or missing date''"]
      by (auto simp: clarification_def)
    then show ?thesis
      using shapes_of_outcome(1,2) [of "''Invalid or missing date''"] by (simp add: 2)
  next
    case 3
    then have "r = outcome_dict (Normalized (isoformat (dt_date x)) (strftime_HM (dt_time x)) ''Asia/Kolkata'')"
      by (simp add: emit_def)
    then show ?thesis
      using shapes_of_outcome(3,4) guardrail_on_normalized by simp
  qed
qed

theorem normalize_two_shapes_witness:
  "(is_clarification (clarification ''Invalid or missing date'') \<or>
      is_normalized (clarification ''Invalid or missing date'')) \<and>
   \<not> (is_clarification (clarification ''Invalid or missing date'') \<and>
      is_normalized (clarification ''Invalid or missing date'')) \<and>
   apply_guardrails_and_build PNone PNone (clarification ''Invalid or missing date'') \<noteq>
     Inr (clarification ''Ambiguous or missing date/time'')"
proof -
  have n: "normalize_py dp_none
      \<lparr>clock = \<lparr>hour = 10, minute = 30, second = 15, microsecond = 0, ordinal = 739924\<rparr>\<rparr>
      None None = Inr (clarification ''Invalid or missing date'')"
    by (simp add: normalize_py_unfold parse_with_base_def resolved_time_def)
  show ?thesis
    using normalize_two_shapes [OF n] by blast
qed

subsection \<open>The two stages and exceptions\<close>




subsection \<open>The time field\<close>

lemma dt_time_combine: "dt_time (combine d t) = t"
  by (simp add: dt_time_def combine_def)

lemma dt_time_add_days: "dt_time (add_days x n) = dt_time x"
  by (simp add: dt_time_def add_days_def)

lemma normalized_field_emit:
  "normalized_field (emit x) ''time'' = Some (PStr (strftime_HM (dt_time x)))"
  by (simp add: normalized_field_def emit_def normalized_dict_def)

lemma not_normalized_clarification: "\<not> is_normalized (clarification reason)"
  by (simp add: is_normalized_def clarification_def)

lemma strftime_default:
  "strftime_HM \<lparr>hour = 9, minute = 0, second = 0, microsecond = 0\<rparr> = ''09:00''"
  by code_simp

text \<open>
  Claim C9. Whenever \<open>normalize_py\<close> returns a normalized record, its field \<^verbatim>\<open>time\<close> is the
  resolved time of day, formatted as zero-padded \<^verbatim>\<open>HH:MM\<close>, and \<^verbatim>\<open>09:00\<close> when the time
  phrase is missing. The statement does not depend on whether the 7 days were added: the
  rollover moves the date only.
\<close>

theorem time_field_is_resolved_time:
  assumes "normalize_py dp w date_phrase time_phrase = Inr r" and "is_normalized r"
  shows "\<exists>t. resolved_time dp time_phrase = Inr (Some t) \<and>
             normalized_field r ''time'' = Some (PStr (strftime_HM t)) \<and>
             (truthy_str time_phrase \<or> normalized_field r ''time'' = Some (PStr ''09:00''))"
proof -
  have "r \<noteq> clarification ''Invalid time format''" "r \<noteq> clarification ''Invalid or missing date''"
    using assms(2) not_normalized_clarification by blast+
  then obtain pd t where rt: "resolved_time dp time_phrase = Inr (Some t)"
    and r: "r = emit (if dt_less (combine (dt_date pd) t) (clock w) \<and> truthy_str date_phrase \<and>
                         \<not> contains (py_lower (the date_phrase)) ''next''
                      then add_days (combine (dt_date pd) t) 7
                      else combine (dt_date pd) t)"
    using normalize_py_returned [OF assms(1)] by blast
  let ?x = "if dt_less (combine (dt_date pd) t) (clock w) \<and> truthy_str date_phrase \<and>
               \<not> contains (py_lower (the date_phrase)) ''next''
            then add_days (combine (dt_date pd) t) 7
            else combine (dt_date pd) t"
  have t: "dt_time ?x = t"
    by (simp add: dt_time_combine dt_time_add_days)
  obtain x where x: "r = emit x" "dt_time x = t"
    using r t by blast
  have f: "normalized_field r ''time'' = Some (PStr (strftime_HM t))"
    by (simp add: x normalized_field_emit)
  have "truthy_str time_phrase \<or> t = \<lparr>hour = 9, minute = 0, second = 0, microsecond = 0\<rparr>"
    using rt by (auto simp: resolved_time_def truthy_str_def split: option.splits)
  then show ?thesis using rt f strftime_default by auto
qed

theorem time_field_is_resolved_time_witness:
  "\<exists>t. resolved_time dp_yesterday (Some ''at 3:30 PM'') = Inr (Some t) \<and>
       normalized_field (normalized_dict ''2026-11-10'' ''15:30'' ''Asia/Kolkata'') ''time'' =
         Some (PStr (strftime_HM t))"
proof -
  let ?now = "\<lparr>hour = 16, minute = 0, second = 0, microsecond = 0, ordinal = 739924\<rparr>"
  have d: "parse_with_base dp_yesterday (Some ''yesterday'') ?now =
      Inr (Some \<lparr>hour = 16, minute = 0, second = 0, microsecond = 0, ordinal = 739923\<rparr>)"
    by code_simp
  have t: "resolved_time dp_yesterday (Some ''at 3:30 PM'') =
      Inr (Some \<lparr>hour = 15, minute = 30, second = 0, microsecond = 0\<rparr>)"
    by code_simp
  have y: "truthy_str (Some ''yesterday'')" by (simp add: truthy_str_def)
  have c: "\<not> contains (py_lower ''yesterday'') ''next''" by code_simp
  have i: "isoformat 739930 = ''2026-11-10''" by code_simp
  have f: "strftime_HM \<lparr>hour = 15, minute = 30, second = 0, microsecond = 0\<rparr> = ''15:30''"
    by code_simp
  have n: "normalize_py dp_yesterday \<lparr>clock = ?now\<rparr> (Some ''yesterday'') (Some ''at 3:30 PM'') =
      Inr (normalized_dict ''2026-11-10'' ''15:30'' ''Asia/Kolkata'')"
    using c i f
    by (simp add: normalize_py_unfold d t y emit_def dt_less_def combine_def add_days_def
          dt_date_def dt_time_def)
  have s: "is_normalized (normalized_dict ''2026-11-10'' ''15:30'' ''Asia/Kolkata'')"
    by (simp add: is_normalized_def normalized_dict_def is_str_def)
  show ?thesis
    using time_field_is_resolved_time [OF n s] by blast
qed

subsection \<open>What the result depends on\<close>

lemma parse_with_base_cong:
  assumes "\<And>st p. date_phrase = Some p \<Longrightarrow> dp (Some st) p = dp' (Some st) p"
  shows "parse_with_base dp date_phrase base_dt = parse_with_base dp' date_phrase base_dt"
proof (cases date_phrase)
  case None
  then show ?thesis by (simp add: parse_with_base_def)
next
  case (Some p)
  then show ?thesis
    unfolding parse_with_base_def Let_def Some option.case assms [OF Some] by simp
qed

lemma resolved_time_cong:
  assumes "\<And>p. time_phrase = Some p \<Longrightarrow> dp None p = dp' None p"
  shows "resolved_time dp time_phrase = resolved_time dp' time_phrase"
proof (cases time_phrase)
  case None
  then show ?thesis by (simp add: resolved_time_def)
next
  case (Some p)
  then show ?thesis
    unfolding resolved_time_def Some option.case assms [OF Some] by simp
qed

lemma this_monday:
  "parse_relative_day ''this monday'' b = Some (get_next_weekday b 0)"
proof -
  have "py_lower ''this monday'' = ''this'' @ '' '' @ (map py_lower day_name ! 0)"
    by code_simp
  then show ?thesis
    using parse_relative_day_lowered [of "''this''" 0 "''this monday''" b] by simp
qed

text \<open>
  Claim C5, as the specification states it, makes the reference instant an argument of
  \<open>normalize\<close> that is never read from a clock. The code has no such argument: the reference
  instant is the reading of the clock at entry. Two calls with the same date phrase and the
  same time phrase, a week apart, return different records.
\<close>

theorem same_phrases_different_clock:
  "normalize_py dp_none
     \<lparr>clock = \<lparr>hour = 10, minute = 30, second = 15, microsecond = 0, ordinal = 739924\<rparr>\<rparr>
     (Some ''this monday'') None =
   Inr (normalized_dict ''2026-11-09'' ''09:00'' ''Asia/Kolkata'') \<and>
   normalize_py dp_none
     \<lparr>clock = \<lparr>hour = 10, minute = 30, second = 15, microsecond = 0, ordinal = 739931\<rparr>\<rparr>
     (Some ''this monday'') None =
   Inr (normalized_dict ''2026-11-16'' ''09:00'' ''Asia/Kolkata'') \<and>
   normalize_py dp_none
     \<lparr>clock = \<lparr>hour = 10, minute = 30, second = 15, microsecond = 0, ordinal = 739924\<rparr>\<rparr>
     (Some ''this monday'') None \<noteq>
   normalize_py dp_none
     \<lparr>clock = \<lparr>hour = 10, minute = 30, second = 15, microsecond = 0, ordinal = 739931\<rparr>\<rparr>
     (Some ''this monday'') None"
proof -
  have p: "parse_with_base dp_none (Some ''this monday'') b = Inr (Some (get_next_weekday b 0))" for b
    by (simp add: parse_with_base_def this_monday)
  have t: "resolved_time dp_none None =
      Inr (Some \<lparr>hour = 9, minute = 0, second = 0, microsecond = 0\<rparr>)"
    by (simp add: resolved_time_def)
  have i: "isoformat 739929 = ''2026-11-09''" "isoformat 739936 = ''2026-11-16''"
    by code_simp+
  have s: "strftime_HM \<lparr>hour = 9, minute = 0, second = 0, microsecond = 0\<rparr> = ''09:00''"
    by code_simp
  have a: "normalize_py dp_none
      \<lparr>clock = \<lparr>hour = 10, minute = 30, second = 15, microsecond = 0, ordinal = 739924\<rparr>\<rparr>
      (Some ''this monday'') None =
    Inr (normalized_dict ''2026-11-09'' ''09:00'' ''Asia/Kolkata'')"
    using i s
    by (simp add: normalize_py_unfold p t emit_def dt_less_def combine_def add_days_def
          dt_date_def dt_time_def get_next_weekday_def weekday_def)
  have b: "normalize_py dp_none
      \<lparr>clock = \<lparr>hour = 10, minute = 30, second = 15, microsecond = 0, ordinal = 739931\<rparr>\<rparr>
      (Some ''this monday'') None =
    Inr (normalized_dict ''2026-11-16'' ''09:00'' ''Asia/Kolkata'')"
    using i s
    by (simp add: normalize_py_unfold p t emit_def dt_less_def combine_def add_days_def
          dt_date_def dt_time_def get_next_weekday_def weekday_def)
  show ?thesis
    by (simp add: a b normalized_dict_def)
qed

text \<open>
  Claim C5, amended. The result of \<open>normalize_py\<close> depends on the date phrase, the time
  phrase, the reading of the clock at entry and the answers of the external parser to these
  two phrases, and on nothing else: two calls that agree on them return the same value.
\<close>

theorem normalize_deterministic:
  assumes "clock w = clock w'"
    and "\<And>st p. date_phrase = Some p \<Longrightarrow> dp (Some st) p = dp' (Some st) p"
    and "\<And>p. time_phrase = Some p \<Longrightarrow> dp None p = dp' None p"
  shows "normalize_py dp w date_phrase time_phrase = normalize_py dp' w' date_phrase time_phrase"
proof -
  have d: "parse_with_base dp date_phrase (clock w') = parse_with_base dp' date_phrase (clock w')"
    by (rule parse_with_base_cong) (rule assms(2))
  have t: "resolved_time dp time_phrase = resolved_time dp' time_phrase"
    by (rule resolved_time_cong) (rule assms(3))
  show ?thesis
    unfolding normalize_py_unfold assms(1) d t by (rule refl)
qed

theorem normalize_deterministic_witness:
  "normalize_py dp_yesterday
     \<lparr>clock = \<lparr>hour = 10, minute = 30, second = 15, microsecond = 0, ordinal = 739924\<rparr>\<rparr>
     (Some ''this monday'') (Some ''3pm'') =
   normalize_py dp_none
     \<lparr>clock = \<lparr>hour = 10, minute = 30, second = 15, microsecond = 0, ordinal = 739924\<rparr>\<rparr>
     (Some ''this monday'') (Some ''3pm'')"
proof (rule normalize_deterministic)
  show "clock \<lparr>clock = \<lparr>hour = 10, minute = 30, second = 15, microsecond = 0, ordinal = 739924\<rparr>\<rparr> =
      clock \<lparr>clock = \<lparr>hour = 10, minute = 30, second = 15, microsecond = 0, ordinal = 739924\<rparr>\<rparr>"
    by (rule refl)
next
  fix st p
  assume "Some ''this monday'' = Some p"
  then show "dp_yesterday (Some st) p = dp_none (Some st) p"
    by (auto simp: dp_yesterday_def dp_none_def)
next
  fix p
  assume "Some ''3pm'' = Some p"
  then show "dp_yesterday None p = dp_none None p"
    by (simp add: dp_yesterday_def dp_none_def)
qed

subsection \<open>Reading back a written time\<close>

lemma of_char_digit_char: "d < 10 \<Longrightarrow> (of_char (digit_char d) :: nat) = 48 + d"
  by (simp add: digit_char_def)

lemma digit_char_eq_iff: "d < 10 \<Longrightarrow> (digit_char d = c) = (48 + d = (of_char c :: nat))"
  using of_char_digit_char [of d] of_char_eq_iff [of "digit_char d" c, where ?'a = nat] by auto

lemma lower_digit_char: "d < 10 \<Longrightarrow> lower_char (digit_char d) = digit_char d"
  by (simp add: lower_char_def of_char_digit_char)

lemma not_space_digit_char: "d < 10 \<Longrightarrow> \<not> is_space (digit_char d)"
  by (simp add: is_space_def of_char_digit_char)

lemma digit_char_0: "digit_char 0 = CHR 0x30"
  by code_simp

lemma show_nat_1: "n < 10 \<Longrightarrow> show_nat n = [digit_char n]"
  by (simp add: show_nat.simps)

lemma show_nat_2: "10 \<le> n \<Longrightarrow> n < 100 \<Longrightarrow> show_nat n = [digit_char (n div 10), digit_char (n mod 10)]"
  by (subst show_nat.simps) (simp add: show_nat_1)

lemma zero_pad_2: "n < 100 \<Longrightarrow> zero_pad 2 n = [digit_char (n div 10), digit_char (n mod 10)]"
  by (cases "n < 10") (simp_all add: zero_pad_def show_nat_1 show_nat_2 numeral_2_eq_2 digit_char_0)

lemma not_space_imp_not_blank: "\<not> is_space c \<Longrightarrow> c \<noteq> CHR '' ''"
  by (auto simp: is_space_def)

lemma parse_time_plain:
  assumes "\<forall>c\<in>set s. \<not> is_space c \<and> lower_char c = c" and "s \<noteq> []" and "hd s \<noteq> CHR ''a''"
  shows "parse_time s = try_formats time_formats s"
proof -
  have l: "py_lower s = s"
    using assms(1) by (simp add: py_lower_def map_idI)
  have h: "\<not> is_space (hd s)" "\<not> is_space (last s)"
    using assms(1,2) by simp_all
  have "dropWhile is_space s = s"
    using h(1) by (simp add: dropWhile_eq_self_iff)
  moreover have "dropWhile is_space (rev s) = rev s"
    using h(2) assms(2) by (simp add: dropWhile_eq_self_iff hd_rev)
  ultimately have p: "py_strip s = s"
    by (simp add: py_strip_def)
  have r: "re_sub_at s = s"
    using assms(3) by (auto simp: re_sub_at_def split: list.splits)
  have f: "replace_spaces s = s"
    using assms(1) not_space_imp_not_blank by (auto simp: replace_spaces_def filter_id_conv)
  show ?thesis
    by (simp add: parse_time_def l p r f)
qed

lemmas digit_facts = is_digit_def digit_val_def in_range_def of_char_digit_char
  digit_char_eq_iff

lemma not_digit_lits:
  "\<not> is_digit (CHR '':'')" "\<not> is_digit (CHR ''a'')" "\<not> is_digit (CHR ''p'')"
  by (simp_all add: is_digit_def)

lemma try_24h:
  assumes "a < 10" and "b < 10" and "10 * a + b < 24" and "c < 6" and "d < 10"
  shows "try_formats time_formats [digit_char a, digit_char b, CHR '':'', digit_char c, digit_char d] =
    Some \<lparr>hour = 10 * a + b, minute = 10 * c + d, second = 0, microsecond = 0, ordinal = 693596\<rparr>"
proof -
  let ?s = "[digit_char a, digit_char b, CHR '':'', digit_char c, digit_char d]"
  have p: "\<not> pat_I_p ?s" "\<not> pat_I_M_p ?s" "pat_H_M ?s"
    using assms
    by (simp_all add: pat_I_p_def pat_I_M_p_def pat_H_M_def rx_then_def
      rx_digits_1_2_def rx_digits_2_def rx_digit_def rx_ampm_def rx_lit_def rx_end_def
      digit_facts not_digit_lits)
  have s: "strptime ?s Fmt_H_M =
      Some \<lparr>hour = 10 * a + b, minute = 10 * c + d, second = 0, microsecond = 0, ordinal = 693596\<rparr>"
    using assms
    by (simp add: strptime_def strptime_matches_def rx_H_def rx_M_def rx_colon_def rx_lit_def
      rx_two_def rx_one_def digit_facts not_digit_lits)
  show ?thesis
    by (simp only: time_formats_def try_formats.simps p s if_True if_False option.case)
qed

lemma lower_lits:
  "lower_char (CHR ''a'') = CHR ''a''" "lower_char (CHR ''p'') = CHR ''p''"
  "lower_char (CHR ''m'') = CHR ''m''" "lower_char (CHR '':'') = CHR '':''"
  by (simp_all add: lower_char_def)

lemma try_I_p_1:
  assumes "1 \<le> g" and "g < 10"
  shows "try_formats time_formats (digit_char g # (if pm then ''pm'' else ''am'')) =
    Some \<lparr>hour = (if pm then (if g \<noteq> 12 then g + 12 else g) else (if g = 12 then 0 else g)), minute = 0, second = 0, microsecond = 0, ordinal = 693596\<rparr>"
proof -
  let ?s = "digit_char g # (if pm then ''pm'' else ''am'')"
  have p: "pat_I_p ?s"
    using assms
    by (simp add: pat_I_p_def rx_then_def rx_digits_1_2_def rx_digit_def rx_ampm_def rx_lit_def
      rx_end_def digit_facts not_digit_lits)
  have s: "strptime ?s Fmt_I_p =
      Some \<lparr>hour = (if pm then (if g \<noteq> 12 then g + 12 else g) else (if g = 12 then 0 else g)), minute = 0, second = 0, microsecond = 0, ordinal = 693596\<rparr>"
    using assms
    by (simp add: strptime_def strptime_matches_def rx_I_def rx_p_def
      rx_two_def rx_one_def digit_facts not_digit_lits py_lower_def lower_lits)
  show ?thesis
    by (simp only: time_formats_def try_formats.simps p s if_True if_False option.case)
qed

lemma try_I_p_2:
  assumes "b \<le> 2"
  shows "try_formats time_formats (CHR ''1'' # digit_char b # (if pm then ''pm'' else ''am'')) =
    Some \<lparr>hour = (if pm then (if 10 + b \<noteq> 12 then 10 + b + 12 else 10 + b) else (if 10 + b = 12 then 0 else 10 + b)), minute = 0, second = 0, microsecond = 0, ordinal = 693596\<rparr>"
proof -
  let ?s = "CHR ''1'' # digit_char b # (if pm then ''pm'' else ''am'')"
  have p: "pat_I_p ?s"
    using assms
    by (simp add: pat_I_p_def rx_then_def rx_digits_1_2_def rx_digit_def rx_ampm_def rx_lit_def
      rx_end_def digit_facts not_digit_lits)
  have s: "strptime ?s Fmt_I_p =
      Some \<lparr>hour = (if pm then (if 10 + b \<noteq> 12 then 10 + b + 12 else 10 + b) else (if 10 + b = 12 then 0 else 10 + b)), minute = 0, second = 0, microsecond = 0, ordinal = 693596\<rparr>"
    using assms
    by (simp add: strptime_def strptime_matches_def rx_I_def rx_p_def
      rx_two_def rx_one_def digit_facts not_digit_lits py_lower_def lower_lits lower_digit_char)
  show ?thesis
    by (simp only: time_formats_def try_formats.simps p s if_True if_False option.case)
qed

lemma try_I_M_p_1:
  assumes "1 \<le> g" and "g < 10" and "c < 6" and "d < 10"
  shows "try_formats time_formats
      (digit_char g # CHR '':'' # digit_char c # digit_char d # (if pm then ''pm'' else ''am'')) =
    Some \<lparr>hour = (if pm then (if g \<noteq> 12 then g + 12 else g) else (if g = 12 then 0 else g)), minute = 10 * c + d, second = 0, microsecond = 0, ordinal = 693596\<rparr>"
proof -
  let ?s = "digit_char g # CHR '':'' # digit_char c # digit_char d # (if pm then ''pm'' else ''am'')"
  have p: "\<not> pat_I_p ?s" "pat_I_M_p ?s"
    using assms
    by (simp_all add: pat_I_p_def pat_I_M_p_def rx_then_def rx_digits_1_2_def rx_digits_2_def
      rx_digit_def rx_ampm_def rx_lit_def rx_end_def digit_facts not_digit_lits)
  have s: "strptime ?s Fmt_I_M_p =
      Some \<lparr>hour = (if pm then (if g \<noteq> 12 then g + 12 else g) else (if g = 12 then 0 else g)), minute = 10 * c + d, second = 0, microsecond = 0, ordinal = 693596\<rparr>"
    using assms
    by (simp add: strptime_def strptime_matches_def rx_I_def rx_M_def rx_p_def rx_colon_def rx_lit_def
      rx_two_def rx_one_def digit_facts not_digit_lits py_lower_def lower_lits lower_digit_char)
  show ?thesis
    by (simp only: time_formats_def try_formats.simps p s if_True if_False option.case)
qed

lemma try_I_M_p_2:
  assumes "b \<le> 2" and "c < 6" and "d < 10"
  shows "try_formats time_formats
      (CHR ''1'' # digit_char b # CHR '':'' # digit_char c # digit_char d #
         (if pm then ''pm'' else ''am'')) =
    Some \<lparr>hour = (if pm then (if 10 + b \<noteq> 12 then 10 + b + 12 else 10 + b) else (if 10 + b = 12 then 0 else 10 + b)), minute = 10 * c + d, second = 0, microsecond = 0, ordinal = 693596\<rparr>"
proof -
  let ?s = "CHR ''1'' # digit_char b # CHR '':'' # digit_char c # digit_char d #
         (if pm then ''pm'' else ''am'')"
  have p: "\<not> pat_I_p ?s" "pat_I_M_p ?s"
    using assms
    by (simp_all add: pat_I_p_def pat_I_M_p_def rx_then_def rx_digits_1_2_def rx_digits_2_def
      rx_digit_def rx_ampm_def rx_lit_def rx_end_def digit_facts not_digit_lits)
  have s: "strptime ?s Fmt_I_M_p =
      Some \<lparr>hour = (if pm then (if 10 + b \<noteq> 12 then 10 + b + 12 else 10 + b) else (if 10 + b = 12 then 0 else 10 + b)), minute = 10 * c + d, second = 0, microsecond = 0, ordinal = 693596\<rparr>"
    using assms
    by (simp add: strptime_def strptime_matches_def rx_I_def rx_M_def rx_p_def rx_colon_def rx_lit_def
      rx_two_def rx_one_def digit_facts not_digit_lits py_lower_def lower_lits lower_digit_char)
  show ?thesis
    by (simp only: time_formats_def try_formats.simps p s if_True if_False option.case)
qed

lemma plain_digit_char: "d < 10 \<Longrightarrow> \<not> is_space (digit_char d) \<and> lower_char (digit_char d) = digit_char d"
  by (simp add: not_space_digit_char lower_digit_char)

lemma plain_lits:
  "\<not> is_space (CHR ''1'') \<and> lower_char (CHR ''1'') = CHR ''1''"
  "\<not> is_space (CHR ''a'') \<and> lower_char (CHR ''a'') = CHR ''a''"
  "\<not> is_space (CHR ''p'') \<and> lower_char (CHR ''p'') = CHR ''p''"
  "\<not> is_space (CHR ''m'') \<and> lower_char (CHR ''m'') = CHR ''m''"
  "\<not> is_space (CHR '':'') \<and> lower_char (CHR '':'') = CHR '':''"
  by (simp_all add: is_space_def lower_char_def)

lemma digit_char_1: "digit_char (Suc 0) = CHR ''1''"
  by code_simp

lemma show_nat_hour12:
  assumes "1 \<le> g" and "g \<le> 12"
  shows "show_nat g = (if g < 10 then [digit_char g] else [CHR ''1'', digit_char (g - 10)])"
proof (cases "g < 10")
  case True
  then show ?thesis by (simp add: show_nat_1)
next
  case False
  then have "g div 10 = 1" "g mod 10 = g - 10"
    using assms(2) by (simp_all add: mod_if div_if)
  then show ?thesis
    using False assms(2) show_nat_2 [of g] by (simp add: digit_char_1)
qed

lemma minute_digits:
  "m < 60 \<Longrightarrow> m div 10 < 6 \<and> m mod 10 < 10 \<and> 10 * (m div 10) + m mod 10 = (m :: nat)"
  by (simp add: less_mult_imp_div_less)

lemma parse_hour_ampm:
  assumes "1 \<le> g" and "g \<le> 12"
  shows "parse_time (show_nat g @ (if pm then ''pm'' else ''am'')) =
    Some \<lparr>hour = (if pm then (if g \<noteq> 12 then g + 12 else g) else (if g = 12 then 0 else g)),
          minute = 0, second = 0, microsecond = 0, ordinal = 693596\<rparr>"
proof (cases "g < 10")
  case True
  let ?s = "digit_char g # (if pm then ''pm'' else ''am'')"
  have "parse_time ?s = try_formats time_formats ?s"
    using True by (intro parse_time_plain) (simp_all add: plain_digit_char plain_lits digit_char_eq_iff)
  then show ?thesis
    using True assms try_I_p_1 [of g pm] by (simp add: show_nat_1)
next
  case False
  let ?s = "CHR ''1'' # digit_char (g - 10) # (if pm then ''pm'' else ''am'')"
  have "parse_time ?s = try_formats time_formats ?s"
    using assms(2) by (intro parse_time_plain) (simp_all add: plain_digit_char plain_lits)
  then show ?thesis
    using False assms try_I_p_2 [of "g - 10" pm] by (simp add: show_nat_hour12)
qed

lemma parse_hour_minute_ampm:
  assumes "1 \<le> g" and "g \<le> 12" and "m < 60"
  shows "parse_time (show_nat g @ '':'' @ zero_pad 2 m @ (if pm then ''pm'' else ''am'')) =
    Some \<lparr>hour = (if pm then (if g \<noteq> 12 then g + 12 else g) else (if g = 12 then 0 else g)),
          minute = m, second = 0, microsecond = 0, ordinal = 693596\<rparr>"
proof (cases "g < 10")
  case True
  let ?s = "digit_char g # CHR '':'' # digit_char (m div 10) # digit_char (m mod 10) #
      (if pm then ''pm'' else ''am'')"
  have "parse_time ?s = try_formats time_formats ?s"
    using True assms(3)
    by (intro parse_time_plain) (simp_all add: plain_digit_char plain_lits digit_char_eq_iff)
  then show ?thesis
    using True assms try_I_M_p_1 [of g "m div 10" "m mod 10" pm] minute_digits [of m]
    by (simp add: show_nat_1 zero_pad_2)
next
  case False
  let ?s = "CHR ''1'' # digit_char (g - 10) # CHR '':'' # digit_char (m div 10) #
      digit_char (m mod 10) # (if pm then ''pm'' else ''am'')"
  have "parse_time ?s = try_formats time_formats ?s"
    using assms(2,3) by (intro parse_time_plain) (simp_all add: plain_digit_char plain_lits)
  then show ?thesis
    using False assms try_I_M_p_2 [of "g - 10" "m div 10" "m mod 10" pm] minute_digits [of m]
    by (simp add: show_nat_hour12 zero_pad_2)
qed

lemma parse_24h:
  assumes "h < 24" and "m < 60"
  shows "parse_time (zero_pad 2 h @ '':'' @ zero_pad 2 m) =
    Some \<lparr>hour = h, minute = m, second = 0, microsecond = 0, ordinal = 693596\<rparr>"
proof -
  let ?s = "[digit_char (h div 10), digit_char (h mod 10), CHR '':'', digit_char (m div 10),
      digit_char (m mod 10)]"
  have "parse_time ?s = try_formats time_formats ?s"
    using assms
    by (intro parse_time_plain) (simp_all add: plain_digit_char plain_lits digit_char_eq_iff)
  then show ?thesis
    using assms try_24h [of "h div 10" "h mod 10" "m div 10" "m mod 10"] minute_digits [of m]
    by (simp add: zero_pad_2)
qed

lemma hour12_range: "1 \<le> hour12 h \<and> hour12 h \<le> 12"
  by (simp add: hour12_def)

lemma hour12_inverse:
  assumes "h < 24"
  shows "(if 12 \<le> h then (if hour12 h \<noteq> 12 then hour12 h + 12 else hour12 h)
          else (if hour12 h = 12 then 0 else hour12 h)) = h"
proof (cases "12 \<le> h")
  case True
  then have "h mod 12 = h - 12"
    using assms by (simp add: mod_if)
  then show ?thesis using True assms by (auto simp: hour12_def)
next
  case False
  then show ?thesis by (auto simp: hour12_def)
qed

lemma am_pm_if: "am_pm h = (if 12 \<le> h then ''pm'' else ''am'')"
  by (simp add: am_pm_def)

text \<open>
  Claim C7. For every time of day, hour \<open>h\<close> below 24 and minute \<open>m\<close> below 60, written in
  one of the three styles and read back by \<open>parse_time\<close>, the hour and the minute are the
  same: the style of \<^verbatim>\<open>3:30pm\<close>, the zero-padded 24-hour style of \<^verbatim>\<open>15:00\<close>, and, for a
  time on the hour, which is what it can write, the style of \<^verbatim>\<open>3pm\<close>.
\<close>

theorem parse_time_round_trip:
  assumes "h < 24" and "m < 60"
  shows "map_option dt_time (parse_time (fmt_hour_ampm h)) =
           Some \<lparr>hour = h, minute = 0, second = 0, microsecond = 0\<rparr> \<and>
         map_option dt_time (parse_time (fmt_hour_minute_ampm h m)) =
           Some \<lparr>hour = h, minute = m, second = 0, microsecond = 0\<rparr> \<and>
         map_option dt_time (parse_time (fmt_24h h m)) =
           Some \<lparr>hour = h, minute = m, second = 0, microsecond = 0\<rparr>"
proof -
  have a: "parse_time (fmt_hour_ampm h) =
      Some \<lparr>hour = h, minute = 0, second = 0, microsecond = 0, ordinal = 693596\<rparr>"
    unfolding fmt_hour_ampm_def am_pm_if
    using parse_hour_ampm [of "hour12 h" "12 \<le> h"] hour12_range [of h] hour12_inverse [OF assms(1)]
    by simp
  have b: "parse_time (fmt_hour_minute_ampm h m) =
      Some \<lparr>hour = h, minute = m, second = 0, microsecond = 0, ordinal = 693596\<rparr>"
    unfolding fmt_hour_minute_ampm_def am_pm_if
    using parse_hour_minute_ampm [of "hour12 h" m "12 \<le> h"] hour12_range [of h]
      hour12_inverse [OF assms(1)] assms(2)
    by simp
  have c: "parse_time (fmt_24h h m) =
      Some \<lparr>hour = h, minute = m, second = 0, microsecond = 0, ordinal = 693596\<rparr>"
    unfolding fmt_24h_def by (rule parse_24h [OF assms])
  show ?thesis
    by (simp add: a b c dt_time_def)
qed

theorem parse_time_round_trip_witness:
  "map_option dt_time (parse_time ''3pm'') =
     Some \<lparr>hour = 15, minute = 0, second = 0, microsecond = 0\<rparr> \<and>
   map_option dt_time (parse_time ''3:30pm'') =
     Some \<lparr>hour = 15, minute = 30, second = 0, microsecond = 0\<rparr> \<and>
   map_option dt_time (parse_time ''15:30'') =
     Some \<lparr>hour = 15, minute = 30, second = 0, microsecond = 0\<rparr>"
proof -
  have f: "fmt_hour_ampm 15 = ''3pm''" "fmt_hour_minute_ampm 15 30 = ''3:30pm''"
    "fmt_24h 15 30 = ''15:30''"
    by code_simp+
  show ?thesis
    using parse_time_round_trip [of 15 30] by (simp add: f)
qed

end
